theory Spec2Isabelle
  imports Main "HOL-Library.Word" "HOL-Library.AList" "HOL-Library.Char_ord"
begin

unbundle bit_operations_syntax

text \<open>
  The web sessions manager \<open>wsm\<close>: the in-memory store of package \<open>memory_storage\<close>
  (sessions, their values, creation, retrieval, touching, destruction and the expiration
  sweep) and the manager that binds a cookie to a session.  Each Go function is a HOL
  function of the same name on an explicit state: the store with its mutex, its counter
  and its map, the heap of session objects the map points to, and, for the manager, the
  manager's own mutex.  The clock, the random source, the request's cookie and the
  registration file are inputs of the calls that read them.
\<close>

section \<open>Outcomes of a call\<close>

text \<open>
  A Go call either comes back, panics, or never comes back.  The last two are the
  faults of the model.  \<open>Deadlock\<close> is \<open>Lock\<close> called on a \<open>sync.Mutex\<close>
  that is held: the mutex is not reentrant, so in a sequential run the caller waits for
  ever.  \<open>NilMapAssignment\<close> is the run-time panic "assignment to entry in nil map",
  \<open>NilDereference\<close> the one for a field access through a nil pointer, \<open>Exit\<close> the end
  of the process by \<open>log.Fatal\<close>.
\<close>

datatype fault = Deadlock | NilMapAssignment | NilDereference | Exit

text \<open>Values of Go's \<open>error\<close> interface that the package produces.\<close>

datatype error =
    SessionNotExist
  | EscapeError string
  | Errorf string

section \<open>package memory\_storage\<close>

subsection \<open>MemorySession\<close>

text \<open>
  \<open>lastAccessTime\<close> is a \<open>time.Time\<close> that the package only ever reads through
  \<open>Unix()\<close>; it is kept as that \<open>int64\<close> number of seconds.  The \<open>value\<close> field is a
  Go map, whose zero value \<open>nil\<close> is \<open>None\<close>: reading a nil map finds nothing,
  deleting from it does nothing, assigning to it panics.
\<close>

record ('k, 'v) MemorySession =
  id_field :: string
  lastAccessTime :: "64 word"
  value_field :: "('k \<rightharpoonup> 'v) option"

text \<open>
  The store holds pointers \<open>*MemorySession\<close>, and the very pointer it holds is what
  \<open>InitializeSession\<close> and \<open>RetrieveSession\<close> hand to the application.  Pointers
  are addresses into a heap of session objects.
\<close>

type_synonym ref = nat

subsection \<open>MemoryStorage\<close>

text \<open>
  \<open>mutex\<close> is the embedded \<open>sync.Mutex\<close> (\<open>True\<close> when held).  \<open>sessions\<close> is a Go
  map: \<open>None\<close> is the nil map of the zero value \<open>MemoryStorage{}\<close>, \<open>Some xs\<close> an
  allocated map with the entries \<open>xs\<close>.  The world of the store adds the heap the
  pointers refer to and the next unused address.
\<close>

record MemoryStorage =
  mutex :: bool
  activeSessions :: "64 word"
  sessions :: "(string \<times> ref) list option"

record ('k, 'v) world = MemoryStorage +
  heap :: "ref \<Rightarrow> ('k, 'v) MemorySession"
  brk :: ref

text \<open>Reading a map (\<open>m[k]\<close> with the comma-ok form) and its entries for \<open>range\<close>.\<close>

definition lookup :: "(string \<times> ref) list option \<Rightarrow> string \<Rightarrow> ref option" where
  "lookup m k = (case m of None \<Rightarrow> None | Some xs \<Rightarrow> map_of xs k)"

definition entries :: "(string \<times> ref) list option \<Rightarrow> (string \<times> ref) list" where
  "entries m = (case m of None \<Rightarrow> [] | Some xs \<Rightarrow> xs)"

text \<open>
  A deferred \<open>Unlock\<close> runs when the function returns and when it panics; it does not
  run while the goroutine is blocked.
\<close>

definition deferred_Unlock :: "fault \<Rightarrow> ('k, 'v) world \<Rightarrow> ('k, 'v) world" where
  "deferred_Unlock f memory = (if f = Deadlock then memory else memory\<lparr>mutex := False\<rparr>)"

subsection \<open>Methods of MemorySession\<close>

definition SetValue ::
  "ref \<Rightarrow> 'k \<Rightarrow> 'v \<Rightarrow> ('k, 'v) world \<Rightarrow> (fault + error option) \<times> ('k, 'v) world" where
  "SetValue session key val w =
     (case value_field (heap w session) of
        None \<Rightarrow> (Inl NilMapAssignment, w)
      | Some m \<Rightarrow>
          (Inr None,
           w\<lparr>heap := (heap w)(session := (heap w session)\<lparr>value_field := Some (m(key \<mapsto> val))\<rparr>)\<rparr>))"

definition GetValue :: "ref \<Rightarrow> 'k \<Rightarrow> ('k, 'v) world \<Rightarrow> 'v option" where
  "GetValue session key w =
     (case value_field (heap w session) of None \<Rightarrow> None | Some m \<Rightarrow> m key)"

definition DeleteValue ::
  "ref \<Rightarrow> 'k \<Rightarrow> ('k, 'v) world \<Rightarrow> (fault + error option) \<times> ('k, 'v) world" where
  "DeleteValue session key w =
     (case value_field (heap w session) of
        None \<Rightarrow> (Inr None, w)
      | Some m \<Rightarrow>
          (Inr None,
           w\<lparr>heap := (heap w)(session := (heap w session)\<lparr>value_field := Some (m(key := None))\<rparr>)\<rparr>))"

definition GetSessionId :: "ref \<Rightarrow> ('k, 'v) world \<Rightarrow> string" where
  "GetSessionId session w = id_field (heap w session)"

subsection \<open>Methods of MemoryStorage\<close>

text \<open>\<open>now\<close> is what \<open>time.Now()\<close> gives during the call, in Unix seconds.\<close>

definition InitializeSession ::
  "string \<Rightarrow> 64 word \<Rightarrow> ('k, 'v) world \<Rightarrow> (fault + ref) \<times> ('k, 'v) world" where
  "InitializeSession sessionId now memory =
     (if mutex memory then (Inl Deadlock, memory)
      else
        let m1 = memory\<lparr>mutex := True\<rparr>;
            newSession = brk m1;
            m2 = m1\<lparr>heap := (heap m1)(newSession :=
                        \<lparr>id_field = sessionId, lastAccessTime = now, value_field = None\<rparr>),
                    brk := Suc (brk m1)\<rparr>;
            m3 = m2\<lparr>activeSessions := activeSessions m2 + 1\<rparr>
        in case sessions m3 of
             None \<Rightarrow> (Inl NilMapAssignment, deferred_Unlock NilMapAssignment m3)
           | Some xs \<Rightarrow>
               (Inr newSession,
                m3\<lparr>sessions := Some (AList.update sessionId newSession xs), mutex := False\<rparr>))"

definition RetrieveSession ::
  "string \<Rightarrow> ('k, 'v) world \<Rightarrow> (fault + error + ref) \<times> ('k, 'v) world" where
  "RetrieveSession sessionId memory =
     (if mutex memory then (Inl Deadlock, memory)
      else
        let m1 = memory\<lparr>mutex := True\<rparr>
        in case lookup (sessions m1) sessionId of
             None \<Rightarrow> (Inr (Inl SessionNotExist), m1\<lparr>mutex := False\<rparr>)
           | Some session \<Rightarrow> (Inr (Inr session), m1\<lparr>mutex := False\<rparr>))"

text \<open>
  The statement \<open>memory.sessions[sessionId].lastAccessTime = time.Now()\<close>: a key
  that is not in the map reads as the nil pointer.
\<close>

definition touch ::
  "string \<Rightarrow> 64 word \<Rightarrow> ('k, 'v) world \<Rightarrow> (fault + error option) \<times> ('k, 'v) world" where
  "touch sessionId now memory =
     (case lookup (sessions memory) sessionId of
        None \<Rightarrow> (Inl NilDereference, deferred_Unlock NilDereference memory)
      | Some session \<Rightarrow>
          (Inr None,
           memory\<lparr>heap := (heap memory)(session := (heap memory session)\<lparr>lastAccessTime := now\<rparr>),
                  mutex := False\<rparr>))"

definition UpdateSessionLastAccess ::
  "string \<Rightarrow> 64 word \<Rightarrow> ('k, 'v) world \<Rightarrow> (fault + error option) \<times> ('k, 'v) world" where
  "UpdateSessionLastAccess sessionId now memory =
     (if mutex memory then (Inl Deadlock, memory)
      else
        let m1 = memory\<lparr>mutex := True\<rparr>
        in case RetrieveSession sessionId m1 of
             (Inl f, m2) \<Rightarrow> (Inl f, deferred_Unlock f m2)
           | (Inr (Inl err), m2) \<Rightarrow>
               if err = SessionNotExist then (Inr (Some err), m2\<lparr>mutex := False\<rparr>)
               else touch sessionId now m2
           | (Inr (Inr _), m2) \<Rightarrow> touch sessionId now m2)"

text \<open>
  The statements \<open>delete(memory.sessions, sessionId); memory.activeSessions -= 1\<close>:
  \<open>delete\<close> on a nil map does nothing.
\<close>

definition remove ::
  "string \<Rightarrow> ('k, 'v) world \<Rightarrow> ('k, 'v) world" where
  "remove sessionId memory =
     memory\<lparr>sessions := map_option (AList.delete sessionId) (sessions memory),
            activeSessions := activeSessions memory - 1\<rparr>"

definition DestroySession ::
  "string \<Rightarrow> ('k, 'v) world \<Rightarrow> (fault + error option) \<times> ('k, 'v) world" where
  "DestroySession sessionId memory =
     (if mutex memory then (Inl Deadlock, memory)
      else
        let m1 = memory\<lparr>mutex := True\<rparr>
        in case RetrieveSession sessionId m1 of
             (Inl f, m2) \<Rightarrow> (Inl f, deferred_Unlock f m2)
           | (Inr (Inl err), m2) \<Rightarrow>
               if err = SessionNotExist then (Inr (Some err), m2\<lparr>mutex := False\<rparr>)
               else (Inr None, (remove sessionId m2)\<lparr>mutex := False\<rparr>)
           | (Inr (Inr _), m2) \<Rightarrow> (Inr None, (remove sessionId m2)\<lparr>mutex := False\<rparr>))"

text \<open>
  The sweep ranges over the map and deletes the entry it is at, which Go allows: every
  entry present at the start is visited once.  \<open>time.Now()\<close> is read anew for each
  entry, so the clock is given per visited key.  The test of the source is
  \<open>session.lastAccessTime.Unix()+maxLifetime > time.Now().Unix()\<close>, on \<open>int64\<close>.
\<close>

fun sweep ::
  "64 word \<Rightarrow> (string \<Rightarrow> 64 word) \<Rightarrow> (string \<times> ref) list \<Rightarrow> ('k, 'v) world \<Rightarrow> ('k, 'v) world" where
  "sweep maxLifetime clock [] memory = memory"
| "sweep maxLifetime clock ((sessionId, session) # rest) memory =
     sweep maxLifetime clock rest
       (if clock sessionId <s lastAccessTime (heap memory session) + maxLifetime
        then remove sessionId memory
        else memory)"

definition TerminateSessionOnExpiration ::
  "64 word \<Rightarrow> (string \<Rightarrow> 64 word) \<Rightarrow> ('k, 'v) world \<Rightarrow> (fault + unit) \<times> ('k, 'v) world" where
  "TerminateSessionOnExpiration maxLifetime clock memory =
     (if mutex memory then (Inl Deadlock, memory)
      else
        let m1 = memory\<lparr>mutex := True\<rparr>;
            m2 = sweep maxLifetime clock (entries (sessions m1)) m1
        in (Inr (), m2\<lparr>mutex := False\<rparr>))"

section \<open>Library functions the session manager calls\<close>

subsection \<open>url.QueryEscape and url.QueryUnescape\<close>

text \<open>
  Go strings are byte strings; a \<open>char\<close> is a byte.  The functions follow \<open>net/url\<close>
  in the mode \<open>encodeQueryComponent\<close>.  On bytes, \<open>c>>4\<close> is \<open>c div 16\<close>, \<open>c&15\<close> is
  \<open>c mod 16\<close>, and \<open>h<<4 | l\<close> is \<open>h * 16 + l\<close> for the two hex digits \<open>h\<close>, \<open>l\<close>.
\<close>

definition upperhex :: string where
  "upperhex = ''0123456789ABCDEF''"

definition ishex :: "char \<Rightarrow> bool" where
  "ishex c =
     (if CHR ''0'' \<le> c \<and> c \<le> CHR ''9'' then True
      else if CHR ''a'' \<le> c \<and> c \<le> CHR ''f'' then True
      else if CHR ''A'' \<le> c \<and> c \<le> CHR ''F'' then True
      else False)"

definition unhex :: "char \<Rightarrow> nat" where
  "unhex c =
     (if CHR ''0'' \<le> c \<and> c \<le> CHR ''9'' then of_char c - of_char CHR ''0''
      else if CHR ''a'' \<le> c \<and> c \<le> CHR ''f'' then of_char c - of_char CHR ''a'' + 10
      else if CHR ''A'' \<le> c \<and> c \<le> CHR ''F'' then of_char c - of_char CHR ''A'' + 10
      else 0)"

definition shouldEscape :: "char \<Rightarrow> bool" where
  "shouldEscape c =
     (if (CHR ''a'' \<le> c \<and> c \<le> CHR ''z'') \<or> (CHR ''A'' \<le> c \<and> c \<le> CHR ''Z'')
          \<or> (CHR ''0'' \<le> c \<and> c \<le> CHR ''9'') then False
      else if c \<in> set ''-_.~'' then False
      else True)"

fun escape :: "string \<Rightarrow> string" where
  "escape [] = []"
| "escape (c # s) =
     (if c = CHR '' '' then CHR ''+'' # escape s
      else if shouldEscape c
      then CHR ''%'' # upperhex ! (of_char c div 16) # upperhex ! (of_char c mod 16) # escape s
      else c # escape s)"

definition QueryEscape :: "string \<Rightarrow> string" where
  "QueryEscape s = escape s"

text \<open>
  The source checks every \<open>%\<close> in a first pass and decodes in a second; the first
  malformed \<open>%\<close> from the left gives the error, with at most three bytes of context.
\<close>

fun unescape :: "string \<Rightarrow> error + string" where
  "unescape [] = Inr []"
| "unescape (c # s) =
     (if c = CHR ''%'' then
        (case s of
           a # b # rest \<Rightarrow>
             if ishex a \<and> ishex b
             then (case unescape rest of
                     Inl err \<Rightarrow> Inl err
                   | Inr t \<Rightarrow> Inr (char_of (unhex a * 16 + unhex b) # t))
             else Inl (EscapeError (take 3 (c # s)))
         | _ \<Rightarrow> Inl (EscapeError (take 3 (c # s))))
      else if c = CHR ''+'' then
        (case unescape s of Inl err \<Rightarrow> Inl err | Inr t \<Rightarrow> Inr (CHR '' '' # t))
      else
        (case unescape s of Inl err \<Rightarrow> Inl err | Inr t \<Rightarrow> Inr (c # t)))"

definition QueryUnescape :: "string \<Rightarrow> error + string" where
  "QueryUnescape s = unescape s"

subsection \<open>base64.URLEncoding.EncodeToString\<close>

definition encodeURL :: string where
  "encodeURL = ''ABCDEFGHIJKLMNOPQRSTUVWXYZabcdefghijklmnopqrstuvwxyz0123456789-_''"

fun EncodeToString :: "8 word list \<Rightarrow> string" where
  "EncodeToString (b0 # b1 # b2 # src) =
     (let val = push_bit 16 (unat b0) OR push_bit 8 (unat b1) OR unat b2
      in encodeURL ! (drop_bit 18 val AND 63) # encodeURL ! (drop_bit 12 val AND 63)
         # encodeURL ! (drop_bit 6 val AND 63) # encodeURL ! (val AND 63)
         # EncodeToString src)"
| "EncodeToString [b0, b1] =
     (let val = push_bit 16 (unat b0) OR push_bit 8 (unat b1)
      in [encodeURL ! (drop_bit 18 val AND 63), encodeURL ! (drop_bit 12 val AND 63),
          encodeURL ! (drop_bit 6 val AND 63), CHR ''=''])"
| "EncodeToString [b0] =
     (let val = push_bit 16 (unat b0)
      in [encodeURL ! (drop_bit 18 val AND 63), encodeURL ! (drop_bit 12 val AND 63),
          CHR ''='', CHR ''=''])"
| "EncodeToString [] = []"

subsection \<open>strings.ToLower\<close>

text \<open>
  A string of ASCII bytes is lowered byte by byte.  Any other string goes through the
  Unicode tables (\<open>Map(unicode.ToLower, s)\<close>), which are taken as the parameter
  \<open>mapLower\<close>.
\<close>

definition ToLower :: "(string \<Rightarrow> string) \<Rightarrow> string \<Rightarrow> string" where
  "ToLower mapLower s =
     (if list_all (\<lambda>c. (of_char c :: nat) < 128) s
      then map (\<lambda>c. if CHR ''A'' \<le> c \<and> c \<le> CHR ''Z'' then char_of (of_char c + 32 :: nat) else c) s
      else mapLower s)"

section \<open>package wsm: the session manager\<close>

text \<open>
  The three backends \<open>supportedStorageMedia\<close> knows.  Only the memory backend has its
  code in the repository; the manager's calls on \<open>manager.storageMedia\<close> are those of
  \<open>MemoryStorage\<close>.
\<close>

datatype StorageMedia = MemoryStorage_media | FileStorage_media | PostgresStorage_media

definition supportedStorageMedia :: "string \<Rightarrow> StorageMedia option" where
  "supportedStorageMedia =
     map_of [(''memory'', MemoryStorage_media), (''file'', FileStorage_media),
             (''postgres'', PostgresStorage_media)]"

definition supportedStorageMediaTypes :: "string list" where
  "supportedStorageMediaTypes = [''memory'', ''file'', ''postgres'']"

record SessionManager =
  cookieName :: string
  storageMedia :: StorageMedia
  maxLifetime :: "64 word"

text \<open>How \<open>fmt\<close> prints a slice of strings under \<open>%v\<close>: \<open>[a b c]\<close>.\<close>

fun spaced :: "string list \<Rightarrow> string" where
  "spaced [] = []"
| "spaced [x] = x"
| "spaced (x # y # ys) = x @ '' '' @ spaced (y # ys)"

definition format_slice :: "string list \<Rightarrow> string" where
  "format_slice xs = ''['' @ spaced xs @ '']''"

text \<open>
  \<open>sessionStorage\<close> reads and writes the registration file and may ask on the console;
  each of its failures ends the process through \<open>log.Fatal\<close>, and every \<open>return\<close> in
  it gives a storage media with a nil error.  Its outcome is given by the environment.
\<close>

type_synonym registration = "string \<Rightarrow> StorageMedia \<Rightarrow> fault + StorageMedia \<times> error option"

definition NewSessionManager ::
  "(string \<Rightarrow> string) \<Rightarrow> registration \<Rightarrow> string \<Rightarrow> string \<Rightarrow> 64 word
     \<Rightarrow> fault + SessionManager option \<times> error option" where
  "NewSessionManager mapLower sessionStorage storageMediaType0 cookieName0 maxLifetime0 =
     (let storageMediaType = ToLower mapLower storageMediaType0
      in case supportedStorageMedia storageMediaType of
           None \<Rightarrow>
             Inr (None,
                  Some (Errorf (''wsm: unsupported storage media type '' @ storageMediaType
                                @ '', the supported storage media types are ''
                                @ format_slice supportedStorageMediaTypes)))
         | Some media \<Rightarrow>
             (case sessionStorage storageMediaType media of
                Inl f \<Rightarrow> Inl f
              | Inr (registeredStorage, None) \<Rightarrow>
                  Inr (Some \<lparr>cookieName = cookieName0, storageMedia = registeredStorage,
                             maxLifetime = maxLifetime0\<rparr>, None)
              | Inr (registeredStorage, Some err) \<Rightarrow> Inr (None, Some err)))"

text \<open>
  \<open>io.ReadFull(rand.Reader, b)\<close> fills the 32 bytes of \<open>b\<close> or fails; \<open>rand\<close> is what
  the reader can deliver.
\<close>

definition generateUniqueSessionID :: "8 word list \<Rightarrow> string" where
  "generateUniqueSessionID rand =
     (if length rand < 32 then [] else EncodeToString (take 32 rand))"

text \<open>
  A cookie as the manager fills it in; the other fields of \<open>http.Cookie\<close> keep their
  zero value.  \<open>Expires\<close> is \<open>None\<close> for the zero \<open>time.Time\<close>.  \<open>MaxAge\<close> is an
  \<open>int\<close>, 64 bits wide, so that \<open>int(manager.maxLifetime)\<close> is the same number.
\<close>

record Cookie =
  Name :: string
  Value :: string
  Path :: string
  HttpOnly :: bool
  Expires :: "64 word option"
  MaxAge :: "64 word"

text \<open>
  The manager's own mutex and the store its \<open>storageMedia\<close> points to.  A request is
  seen through \<open>request.Cookie\<close>: the value of the cookie of a given name, if it
  carries one.  A call returns its result, the cookies it passed to \<open>http.SetCookie\<close>,
  and the state.
\<close>

record ('k, 'v) state =
  managerMutex :: bool
  memory :: "('k, 'v) world"

type_synonym request = "string \<Rightarrow> string option"

definition manager_Unlock :: "fault \<Rightarrow> ('k, 'v) state \<Rightarrow> ('k, 'v) state" where
  "manager_Unlock f s = (if f = Deadlock then s else s\<lparr>managerMutex := False\<rparr>)"

definition StartSession ::
  "SessionManager \<Rightarrow> 8 word list \<Rightarrow> 64 word \<Rightarrow> request \<Rightarrow> ('k, 'v) state
     \<Rightarrow> (fault + error + ref) \<times> Cookie list \<times> ('k, 'v) state" where
  "StartSession manager rand now request s =
     (if managerMutex s then (Inl Deadlock, [], s)
      else
        let s1 = s\<lparr>managerMutex := True\<rparr>;
            fresh =
              (let sessionId = generateUniqueSessionID rand
               in case InitializeSession sessionId now (memory s1) of
                    (Inl f, m) \<Rightarrow> (Inl f, [], manager_Unlock f (s1\<lparr>memory := m\<rparr>))
                  | (Inr session, m) \<Rightarrow>
                      (Inr (Inr session),
                       [\<lparr>Name = cookieName manager, Value = QueryEscape sessionId, Path = ''/'',
                         HttpOnly = True, Expires = None, MaxAge = maxLifetime manager\<rparr>],
                       s1\<lparr>memory := m, managerMutex := False\<rparr>))
        in case request (cookieName manager) of
             None \<Rightarrow> fresh
           | Some v \<Rightarrow>
               if v = [] then fresh
               else
                 (case QueryUnescape v of
                    Inl err \<Rightarrow> (Inr (Inl err), [], s1\<lparr>managerMutex := False\<rparr>)
                  | Inr sessionId \<Rightarrow>
                      (case RetrieveSession sessionId (memory s1) of
                         (Inl f, m) \<Rightarrow> (Inl f, [], manager_Unlock f (s1\<lparr>memory := m\<rparr>))
                       | (Inr (Inl err), m) \<Rightarrow>
                           (Inr (Inl err), [], s1\<lparr>memory := m, managerMutex := False\<rparr>)
                       | (Inr (Inr session), m) \<Rightarrow>
                           (Inr (Inr session), [], s1\<lparr>memory := m, managerMutex := False\<rparr>))))"

definition EndSession ::
  "SessionManager \<Rightarrow> 64 word \<Rightarrow> request \<Rightarrow> ('k, 'v) state
     \<Rightarrow> (fault + unit) \<times> Cookie list \<times> ('k, 'v) state" where
  "EndSession manager now request s =
     (case request (cookieName manager) of
        None \<Rightarrow> (Inr (), [], s)
      | Some v \<Rightarrow>
          if v = [] then (Inr (), [], s)
          else if managerMutex s then (Inl Deadlock, [], s)
          else
            let s1 = s\<lparr>managerMutex := True\<rparr>
            in case DestroySession v (memory s1) of
                 (Inl f, m) \<Rightarrow> (Inl f, [], manager_Unlock f (s1\<lparr>memory := m\<rparr>))
               | (Inr err, m) \<Rightarrow>
                   (Inr (),
                    [\<lparr>Name = cookieName manager, Value = [], Path = ''/'', HttpOnly = True,
                      Expires = Some now, MaxAge = - 1\<rparr>],
                    s1\<lparr>memory := m, managerMutex := False\<rparr>))"

section \<open>Sequences of calls on a store\<close>

datatype call =
    Call_InitializeSession string "64 word"
  | Call_RetrieveSession string
  | Call_UpdateSessionLastAccess string "64 word"
  | Call_DestroySession string
  | Call_TerminateSessionOnExpiration "64 word" "string \<Rightarrow> 64 word"

text \<open>What a call leaves behind: the fault it ended in, if any, and the store.\<close>

fun perform :: "call \<Rightarrow> ('k, 'v) world \<Rightarrow> fault option \<times> ('k, 'v) world" where
  "perform (Call_InitializeSession sessionId now) w =
     (case InitializeSession sessionId now w of
        (Inl f, w') \<Rightarrow> (Some f, w') | (Inr _, w') \<Rightarrow> (None, w'))"
| "perform (Call_RetrieveSession sessionId) w =
     (case RetrieveSession sessionId w of
        (Inl f, w') \<Rightarrow> (Some f, w') | (Inr _, w') \<Rightarrow> (None, w'))"
| "perform (Call_UpdateSessionLastAccess sessionId now) w =
     (case UpdateSessionLastAccess sessionId now w of
        (Inl f, w') \<Rightarrow> (Some f, w') | (Inr _, w') \<Rightarrow> (None, w'))"
| "perform (Call_DestroySession sessionId) w =
     (case DestroySession sessionId w of
        (Inl f, w') \<Rightarrow> (Some f, w') | (Inr _, w') \<Rightarrow> (None, w'))"
| "perform (Call_TerminateSessionOnExpiration lifetime clock) w =
     (case TerminateSessionOnExpiration lifetime clock w of
        (Inl f, w') \<Rightarrow> (Some f, w') | (Inr _, w') \<Rightarrow> (None, w'))"

text \<open>\<open>InitializeSession\<close> is only to be called with an identifier that is not registered.\<close>

fun allowed :: "call \<Rightarrow> ('k, 'v) world \<Rightarrow> bool" where
  "allowed (Call_InitializeSession sessionId now) w = (lookup (sessions w) sessionId = None)"
| "allowed (Call_RetrieveSession sessionId) w = True"
| "allowed (Call_UpdateSessionLastAccess sessionId now) w = True"
| "allowed (Call_DestroySession sessionId) w = True"
| "allowed (Call_TerminateSessionOnExpiration lifetime clock) w = True"

definition panics :: "fault option \<Rightarrow> bool" where
  "panics r = (r = Some NilMapAssignment \<or> r = Some NilDereference \<or> r = Some Exit)"

text \<open>
  The stores a sequence of calls can lead to from \<open>w0\<close>, a store with no entry and a
  counter of zero.  Every call counts, whatever its outcome: after a panic the deferred
  \<open>Unlock\<close> has run and the store is there for the next call, and a call that blocks
  leaves the store as it is at that moment.
\<close>

inductive reachable :: "('k, 'v) world \<Rightarrow> ('k, 'v) world \<Rightarrow> bool" where
  start: "activeSessions w0 = 0 \<Longrightarrow> entries (sessions w0) = [] \<Longrightarrow> reachable w0 w0"
| call: "reachable w0 w \<Longrightarrow> allowed c w \<Longrightarrow> perform c w = (r, w') \<Longrightarrow> reachable w0 w'"

definition counted :: "('k, 'v) world \<Rightarrow> bool" where
  "counted w =
     (distinct (map fst (entries (sessions w)))
      \<and> activeSessions w = of_nat (length (entries (sessions w))))"

section \<open>Concrete stores, managers and requests\<close>

definition blank :: "(string, string) MemorySession" where
  "blank = \<lparr>id_field = [], lastAccessTime = 0, value_field = None\<rparr>"

text \<open>The store \<open>&memory_storage.MemoryStorage{}\<close> that \<open>supportedStorageMedia\<close> holds.\<close>

definition zero_store :: "(string, string) world" where
  "zero_store =
     \<lparr>mutex = False, activeSessions = 0, sessions = None, heap = (\<lambda>_. blank), brk = 0\<rparr>"

text \<open>A store whose map has been allocated and is empty.\<close>

definition empty_store :: "(string, string) world" where
  "empty_store =
     \<lparr>mutex = False, activeSessions = 0, sessions = Some [], heap = (\<lambda>_. blank), brk = 0\<rparr>"

text \<open>A store with the one session \<open>a\<close>, last accessed at second 100.\<close>

definition one_session :: "(string, string) world" where
  "one_session =
     \<lparr>mutex = False, activeSessions = 1, sessions = Some [(''a'', 0)],
      heap = (\<lambda>_. blank)(0 := \<lparr>id_field = ''a'', lastAccessTime = 100, value_field = None\<rparr>),
      brk = 1\<rparr>"

definition state0 :: "(string, string) state" where
  "state0 = \<lparr>managerMutex = False, memory = empty_store\<rparr>"

definition manager0 :: SessionManager where
  "manager0 = \<lparr>cookieName = ''sid'', storageMedia = MemoryStorage_media, maxLifetime = 60\<rparr>"

definition no_cookie :: request where
  "no_cookie name = None"

definition carrying :: "string \<Rightarrow> string \<Rightarrow> request" where
  "carrying name v n = (if n = name then Some v else None)"

text \<open>An environment in which \<open>sessionStorage\<close> registers the storage media it is given.\<close>

definition registers :: registration where
  "registers storageMediaType media = Inr (media, None)"

text \<open>The identifier made from 32 zero bytes, and the state after it has been issued.\<close>

definition sessionId0 :: string where
  "sessionId0 = ''AAAAAAAAAAAAAAAAAAAAAAAAAAAAAAAAAAAAAAAAAAA=''"

definition state1 :: "(string, string) state" where
  "state1 =
     \<lparr>managerMutex = False,
      memory =
        \<lparr>mutex = False, activeSessions = 1, sessions = Some [(sessionId0, 0)],
         heap = (\<lambda>_. blank)(0 :=
                  \<lparr>id_field = sessionId0, lastAccessTime = 100, value_field = None\<rparr>),
         brk = 1\<rparr>\<rparr>"

section \<open>The sweep\<close>

text \<open>
  What the sweep leaves in the map: the entries whose key it did not visit with the test
  \<open>now < lastAccessTime + maxLifetime\<close> true.
\<close>

lemma sessions_sweep:
  "sessions (sweep lifetime clock ys w) =
     map_option
       (filter (\<lambda>(k, p). \<not> (\<exists>q. (k, q) \<in> set ys \<and> clock k <s lastAccessTime (heap w q) + lifetime)))
       (sessions w)"
proof (induction ys arbitrary: w)
  case Nil
  show ?case by (cases "sessions w") simp_all
next
  case (Cons y ys)
  obtain k p where y: "y = (k, p)" by (cases y)
  show ?case
  proof (cases "clock k <s lastAccessTime (heap w p) + lifetime")
    case True
    have "sessions (sweep lifetime clock (y # ys) w) = sessions (sweep lifetime clock ys (remove k w))"
      using True y by simp
    also have "\<dots> = map_option
       (filter (\<lambda>(k', p'). \<not> (\<exists>q. (k', q) \<in> set ys \<and> clock k' <s lastAccessTime (heap w q) + lifetime)))
       (sessions (remove k w))"
      by (simp add: Cons.IH remove_def)
    also have "\<dots> = map_option
       (filter (\<lambda>(k', p'). \<not> (\<exists>q. (k', q) \<in> set (y # ys) \<and> clock k' <s lastAccessTime (heap w q) + lifetime)))
       (sessions w)"
      using True y
      by (cases "sessions w") (auto simp: remove_def AList.delete_eq intro!: filter_cong)
    finally show ?thesis .
  next
    case False
    have "sessions (sweep lifetime clock (y # ys) w) = sessions (sweep lifetime clock ys w)"
      using False y by simp
    also have "\<dots> = map_option
       (filter (\<lambda>(k', p'). \<not> (\<exists>q. (k', q) \<in> set (y # ys) \<and> clock k' <s lastAccessTime (heap w q) + lifetime)))
       (sessions w)"
      using False y
      by (cases "sessions w") (auto simp: Cons.IH intro!: filter_cong)
    finally show ?thesis .
  qed
qed

text \<open>
  So a registered session is evicted exactly when the clock read at its visit is before
  \<open>lastAccessTime + maxLifetime\<close> (in \<open>int64\<close> arithmetic), and kept otherwise.
\<close>

lemma TerminateSessionOnExpiration_evicts:
  assumes "\<not> mutex w" and "sessions w = Some xs" and "distinct (map fst xs)"
    and "(k, p) \<in> set xs"
  shows "lookup (sessions (snd (TerminateSessionOnExpiration lifetime clock w))) k
           = (if clock k <s lastAccessTime (heap w p) + lifetime then None else Some p)"
proof -
  define keep :: "string \<times> ref \<Rightarrow> bool" where
    "keep = (\<lambda>(k, p). \<not> (\<exists>q. (k, q) \<in> set xs
                \<and> clock k <s lastAccessTime (heap w q) + lifetime))"
  have same: "q = p" if "(k, q) \<in> set xs" for q
    using assms(3) that assms(4) by (rule eq_key_imp_eq_value)
  have kp: "keep (k, p) \<longleftrightarrow> \<not> clock k <s lastAccessTime (heap w p) + lifetime"
    unfolding keep_def using same assms(4) by blast
  have "sessions (sweep lifetime clock xs (w\<lparr>mutex := True\<rparr>)) = Some (filter keep xs)"
    unfolding keep_def using assms(2) by (simp add: sessions_sweep)
  then have s: "sessions (snd (TerminateSessionOnExpiration lifetime clock w)) = Some (filter keep xs)"
    using assms(1,2) by (simp add: TerminateSessionOnExpiration_def Let_def entries_def)
  show ?thesis
  proof (cases "clock k <s lastAccessTime (heap w p) + lifetime")
    case True
    have "k \<notin> fst ` set (filter keep xs)"
    proof
      assume "k \<in> fst ` set (filter keep xs)"
      then obtain q where q: "(k, q) \<in> set xs" "keep (k, q)" by auto
      with same have "keep (k, p)" by simp
      with kp True show False by simp
    qed
    then have "map_of (filter keep xs) k = None" by (simp add: map_of_eq_None_iff)
    with True s show ?thesis by (simp add: lookup_def)
  next
    case False
    with kp assms(4) have "(k, p) \<in> set (filter keep xs)" by simp
    moreover have "distinct (map fst (filter keep xs))"
      using assms(3) by (rule distinct_map_filter)
    ultimately have "map_of (filter keep xs) k = Some p" by (rule map_of_is_SomeI [rotated])
    with False s show ?thesis by (simp add: lookup_def)
  qed
qed

text \<open>
  Claim C1: a session last accessed at \<open>T\<close> is evicted by
  \<open>TerminateSessionOnExpiration(L)\<close> run at \<open>now\<close> exactly when \<open>T + L \<le> now\<close>; a
  sweep at \<open>T + L + 1\<close> removes it, a sweep at \<open>T + L - 1\<close> keeps it.  The code tests
  \<open>T + L > now\<close> instead.  With \<open>T = 100\<close> and \<open>L = 10\<close>, the sweep at second 111 keeps
  the session and the counter, and the sweep at second 109 removes the session.
\<close>

theorem C1_sweep_keeps_expired_and_evicts_live:
  "TerminateSessionOnExpiration 10 (\<lambda>_. 111) one_session = (Inr (), one_session)
   \<and> sessions (snd (TerminateSessionOnExpiration 10 (\<lambda>_. 109) one_session)) = Some []
   \<and> activeSessions (snd (TerminateSessionOnExpiration 10 (\<lambda>_. 109) one_session)) = 0"
  by (simp add: TerminateSessionOnExpiration_def one_session_def entries_def remove_def
        word_sless_alt)

section \<open>Values of a new session\<close>

text \<open>Every session \<open>InitializeSession\<close> returns has the nil map for its values.\<close>

lemma SetValue_after_InitializeSession:
  "InitializeSession sessionId now w = (Inr session, w') \<Longrightarrow>
     SetValue session key val w' = (Inl NilMapAssignment, w')"
  by (auto simp: InitializeSession_def SetValue_def Let_def split: if_splits option.splits)

text \<open>
  Claim C2: on a session returned by \<open>InitializeSession\<close>, \<open>SetValue(key, value)\<close> returns
  a nil error without a crash and the key is then mapped to the value.  The code gives the
  new session the nil map \<open>var sessionValue map[interface{}]interface{}\<close>, so the
  assignment in \<open>SetValue\<close> panics and the session's map stays nil.
\<close>

theorem C2_SetValue_panics_on_new_session:
  "(case InitializeSession ''a'' 100 empty_store of
      (Inr session, w) \<Rightarrow>
        SetValue session ''username'' ''zyrx'' w = (Inl NilMapAssignment, w)
        \<and> GetValue session ''username'' w = None
    | (Inl f, w) \<Rightarrow> False)"
  by (simp add: InitializeSession_def empty_store_def SetValue_def GetValue_def Let_def)

section \<open>Initialising and retrieving\<close>

text \<open>
  On a store whose mutex is free and whose map is allocated, a session that has just been
  initialised is retrieved under its identifier, has that identifier and no value.
\<close>

lemma InitializeSession_then_RetrieveSession:
  assumes "\<not> mutex w" and "sessions w = Some xs"
  shows "(case InitializeSession sessionId now w of
            (Inr session, w1) \<Rightarrow>
              RetrieveSession sessionId w1 = (Inr (Inr session), w1)
              \<and> GetSessionId session w1 = sessionId
              \<and> (\<forall>key. GetValue session key w1 = None)
          | (Inl f, w1) \<Rightarrow> False)"
  using assms
  by (simp add: InitializeSession_def RetrieveSession_def GetSessionId_def GetValue_def
        lookup_def Let_def update_conv')

text \<open>
  On a store whose map is nil, \<open>InitializeSession\<close> counts the session and then panics.
\<close>

lemma InitializeSession_nil_map:
  "\<not> mutex w \<Longrightarrow> sessions w = None \<Longrightarrow>
     fst (InitializeSession sessionId now w) = Inl NilMapAssignment
     \<and> activeSessions (snd (InitializeSession sessionId now w)) = activeSessions w + 1
     \<and> sessions (snd (InitializeSession sessionId now w)) = None"
  by (simp add: InitializeSession_def Let_def deferred_Unlock_def)

text \<open>
  Claim C5: for an identifier that is not registered, \<open>InitializeSession(id)\<close> followed
  by \<open>RetrieveSession(id)\<close> succeeds and returns a session with that identifier and an
  empty value map.  The store the package makes is \<open>MemoryStorage{}\<close>, whose \<open>sessions\<close>
  map is nil and is allocated nowhere: there \<open>InitializeSession\<close> adds one to the counter
  and panics on the assignment to the map, and the identifier stays unknown.
\<close>

theorem C5_InitializeSession_panics_on_zero_store:
  "InitializeSession ''a'' 100 zero_store =
     (Inl NilMapAssignment,
      zero_store\<lparr>activeSessions := 1,
                 heap := (\<lambda>_. blank)(0 :=
                   \<lparr>id_field = ''a'', lastAccessTime = 100, value_field = None\<rparr>),
                 brk := 1\<rparr>)
   \<and> fst (RetrieveSession ''a'' (snd (InitializeSession ''a'' 100 zero_store)))
       = Inr (Inl SessionNotExist)"
  by (simp add: InitializeSession_def RetrieveSession_def zero_store_def Let_def
        deferred_Unlock_def lookup_def)

section \<open>Calls that lock twice\<close>

text \<open>
  \<open>UpdateSessionLastAccess\<close> and \<open>DestroySession\<close> take the store's mutex and then call
  \<open>RetrieveSession\<close>, which takes it again.  Whatever the store, neither comes back, and
  the mutex stays held.
\<close>

lemma DestroySession_blocks:
  "DestroySession sessionId w = (Inl Deadlock, w\<lparr>mutex := True\<rparr>)"
  by (simp add: DestroySession_def RetrieveSession_def Let_def deferred_Unlock_def)

lemma UpdateSessionLastAccess_blocks:
  "UpdateSessionLastAccess sessionId now w = (Inl Deadlock, w\<lparr>mutex := True\<rparr>)"
  by (simp add: UpdateSessionLastAccess_def RetrieveSession_def Let_def deferred_Unlock_def)

text \<open>\<open>RetrieveSession\<close> alone reports an unknown identifier, and leaves the store as it was.\<close>

lemma RetrieveSession_SessionNotExist:
  assumes "\<not> mutex w"
  shows "fst (RetrieveSession sessionId w) = Inr (Inl SessionNotExist)
           \<longleftrightarrow> lookup (sessions w) sessionId = None"
    and "snd (RetrieveSession sessionId w) = w"
  using assms by (simp_all add: RetrieveSession_def Let_def split: option.splits)

text \<open>
  Claim C6: \<open>RetrieveSession\<close>, \<open>UpdateSessionLastAccess\<close> and \<open>DestroySession\<close> return
  \<open>SessionNotExist\<close> exactly when the identifier is not in the store, and leave the store
  unchanged then; after a successful \<open>DestroySession(id)\<close>, \<open>RetrieveSession(id)\<close> and a
  second \<open>DestroySession(id)\<close> return \<open>SessionNotExist\<close>.  In the code
  \<open>UpdateSessionLastAccess\<close> and \<open>DestroySession\<close> return nothing at all, for a
  registered identifier as for an unknown one: they block, with every session still
  registered.
\<close>

theorem C6_Destroy_and_Update_never_return:
  "fst (DestroySession sessionId w) = Inl Deadlock
   \<and> fst (UpdateSessionLastAccess sessionId now w) = Inl Deadlock
   \<and> sessions (snd (DestroySession sessionId w)) = sessions w
   \<and> activeSessions (snd (DestroySession sessionId w)) = activeSessions w
   \<and> mutex (snd (DestroySession sessionId w))
   \<and> mutex (snd (UpdateSessionLastAccess sessionId now w))"
  by (simp add: DestroySession_blocks UpdateSessionLastAccess_blocks)

section \<open>The live-session counter\<close>

lemma counted_mutex: "counted (w\<lparr>mutex := b\<rparr>) = counted w"
  by (simp add: counted_def)

lemma length_delete_present:
  "distinct (map fst xs) \<Longrightarrow> k \<in> fst ` set xs \<Longrightarrow> Suc (length (AList.delete k xs)) = length xs"
proof (induction xs)
  case Nil
  then show ?case by simp
next
  case (Cons x xs)
  then show ?case by (cases x) (auto simp: AList.delete_id image_iff)
qed

lemma length_update_fresh:
  "k \<notin> fst ` set xs \<Longrightarrow> length (AList.update k v xs) = Suc (length xs)"
  by (induction xs) auto

lemma counted_remove:
  assumes "counted w" and "(k, p) \<in> set (entries (sessions w))"
  shows "counted (remove k w)"
proof (cases "sessions w")
  case None
  with assms show ?thesis by (simp add: entries_def)
next
  case (Some xs)
  from assms Some have d: "distinct (map fst xs)" and c: "activeSessions w = of_nat (length xs)"
    and kin: "k \<in> fst ` set xs"
    by (auto simp: counted_def entries_def intro: rev_image_eqI)
  have "of_nat (length xs) - (1 :: 64 word) = of_nat (length (AList.delete k xs))"
    using length_delete_present [OF d kin, symmetric] by simp
  with d c Some show ?thesis
    by (simp add: counted_def remove_def entries_def distinct_delete)
qed

lemma entries_remove:
  "set (entries (sessions (remove k w))) = {e \<in> set (entries (sessions w)). fst e \<noteq> k}"
  by (cases "sessions w") (auto simp: remove_def entries_def AList.delete_eq)

text \<open>
  The sweep works through the entries the map had when it started; their keys differ, so
  each entry it deletes is still there to be deleted.
\<close>

lemma counted_sweep:
  "counted w \<Longrightarrow> distinct (map fst ys) \<Longrightarrow> set ys \<subseteq> set (entries (sessions w))
     \<Longrightarrow> counted (sweep lifetime clock ys w)"
proof (induction ys arbitrary: w)
  case Nil
  then show ?case by simp
next
  case (Cons y ys)
  obtain k p where y: "y = (k, p)" by (cases y)
  show ?case
  proof (cases "clock k <s lastAccessTime (heap w p) + lifetime")
    case True
    have "counted (remove k w)" using Cons.prems y by (auto intro: counted_remove)
    moreover have "set ys \<subseteq> set (entries (sessions (remove k w)))"
      using Cons.prems y by (auto simp: entries_remove intro: rev_image_eqI)
    ultimately have "counted (sweep lifetime clock ys (remove k w))"
      using Cons.prems by (intro Cons.IH) auto
    with True y show ?thesis by simp
  next
    case False
    have "counted (sweep lifetime clock ys w)"
      using Cons.prems by (intro Cons.IH) auto
    with False y show ?thesis by simp
  qed
qed

lemma counted_perform:
  assumes "counted w" and "allowed c w" and "perform c w = (r, w')" and "\<not> panics r"
  shows "counted w'"
proof (cases c)
  case (Call_InitializeSession sessionId now)
  show ?thesis
  proof (cases "sessions w")
    case None
    with assms Call_InitializeSession show ?thesis
      by (auto simp: InitializeSession_def Let_def panics_def deferred_Unlock_def
            split: if_splits)
  next
    case (Some xs)
    from assms(2) Call_InitializeSession Some have "sessionId \<notin> fst ` set xs"
      by (simp add: lookup_def map_of_eq_None_iff)
    with assms Call_InitializeSession Some show ?thesis
      by (auto simp: InitializeSession_def Let_def counted_def entries_def distinct_update
            length_update_fresh split: if_splits)
  qed
next
  case (Call_RetrieveSession sessionId)
  with assms show ?thesis
    by (auto simp: RetrieveSession_def Let_def counted_def split: if_splits option.splits)
next
  case (Call_UpdateSessionLastAccess sessionId now)
  with assms show ?thesis
    by (auto simp: UpdateSessionLastAccess_blocks counted_mutex)
next
  case (Call_DestroySession sessionId)
  with assms show ?thesis
    by (auto simp: DestroySession_blocks counted_mutex)
next
  case (Call_TerminateSessionOnExpiration lifetime clock)
  show ?thesis
  proof (cases "mutex w")
    case True
    with assms Call_TerminateSessionOnExpiration show ?thesis
      by (auto simp: TerminateSessionOnExpiration_def)
  next
    case False
    have "counted (sweep lifetime clock (entries (sessions w)) (w\<lparr>mutex := True\<rparr>))"
      using assms(1) by (intro counted_sweep) (auto simp: counted_def)
    with assms Call_TerminateSessionOnExpiration False show ?thesis
      by (auto simp: TerminateSessionOnExpiration_def Let_def counted_mutex)
  qed
qed

lemma sint_of_nat_small: "n < 2 ^ 63 \<Longrightarrow> sint (of_nat n :: 64 word) = int n"
  by (simp add: signed_of_nat signed_take_bit_int_eq_self)

text \<open>On a store whose map is allocated no call panics, and the map stays allocated.\<close>

lemma sweep_allocated: "sessions w \<noteq> None \<Longrightarrow> sessions (sweep lifetime clock ys w) \<noteq> None"
  by (induction ys arbitrary: w) (auto simp: remove_def)

lemma allocated_never_panics:
  assumes "sessions w = Some xs"
  shows "\<not> panics (fst (perform c w)) \<and> sessions (snd (perform c w)) \<noteq> None"
proof (cases c)
  case (Call_InitializeSession sessionId now)
  with assms show ?thesis
    by (simp add: InitializeSession_def Let_def panics_def)
next
  case (Call_RetrieveSession sessionId)
  with assms show ?thesis
    by (simp add: RetrieveSession_def Let_def panics_def split: option.splits)
next
  case (Call_UpdateSessionLastAccess sessionId now)
  with assms show ?thesis
    by (simp add: UpdateSessionLastAccess_blocks panics_def)
next
  case (Call_DestroySession sessionId)
  with assms show ?thesis
    by (simp add: DestroySession_blocks panics_def)
next
  case (Call_TerminateSessionOnExpiration lifetime clock)
  have "sessions (sweep lifetime clock (entries (sessions w)) (w\<lparr>mutex := True\<rparr>)) \<noteq> None"
    using assms by (intro sweep_allocated) simp
  with assms Call_TerminateSessionOnExpiration show ?thesis
    by (simp add: TerminateSessionOnExpiration_def Let_def panics_def)
qed

text \<open>
  From a store whose map is allocated, then, every sequence of calls keeps the counter
  equal to the number of entries: as an \<open>int64\<close>, and as an integer while there are fewer
  than \<open>2 ^ 63\<close> entries.
\<close>

lemma reachable_allocated:
  "reachable w0 w \<Longrightarrow> sessions w0 \<noteq> None \<Longrightarrow> sessions w \<noteq> None"
proof (induction rule: reachable.induct)
  case (start w0)
  then show ?case by simp
next
  case (call w0 w c r w')
  then obtain xs where "sessions w = Some xs" by auto
  from allocated_never_panics [OF this, of c] call.hyps(3) show ?case by simp
qed

lemma reachable_counted:
  "reachable w0 w \<Longrightarrow> sessions w0 \<noteq> None \<Longrightarrow> counted w"
proof (induction rule: reachable.induct)
  case (start w0)
  then show ?case by (simp add: counted_def)
next
  case (call w0 w c r w')
  from call.hyps(1) call.prems obtain xs where "sessions w = Some xs"
    by (auto dest: reachable_allocated)
  from allocated_never_panics [OF this, of c] call.hyps(3) have "\<not> panics r" by simp
  with call show ?case by (blast intro: counted_perform)
qed

lemma counter_equals_number_of_sessions_when_allocated:
  assumes "reachable w0 w" and "sessions w0 \<noteq> None"
  shows "distinct (map fst (entries (sessions w)))
         \<and> activeSessions w = of_nat (length (entries (sessions w)))
         \<and> (length (entries (sessions w)) < 2 ^ 63
              \<longrightarrow> sint (activeSessions w) = int (length (entries (sessions w))))"
  using reachable_counted [OF assms] by (auto simp: counted_def sint_of_nat_small)

text \<open>
  Claim C4: in every store reached from an empty one by \<open>InitializeSession\<close> (with
  identifiers not yet registered), \<open>RetrieveSession\<close>, \<open>UpdateSessionLastAccess\<close>,
  \<open>DestroySession\<close> and \<open>TerminateSessionOnExpiration\<close>, the \<open>activeSessions\<close> counter
  equals the number of entries of the \<open>sessions\<close> map.  The empty store of the package is
  \<open>MemoryStorage{}\<close>, with the nil map.  \<open>InitializeSession\<close> with an identifier that is
  not registered adds one to the counter before it assigns to the map; the assignment
  panics, the deferred \<open>Unlock\<close> frees the mutex, and the store is left with a counter
  of one and no entry.  A second such call leaves a counter of two.
\<close>

theorem C4_counter_ahead_of_sessions_after_panic:
  "reachable zero_store (snd (InitializeSession ''a'' 100 zero_store))
   \<and> allowed (Call_InitializeSession ''a'' 100) zero_store
   \<and> fst (InitializeSession ''a'' 100 zero_store) = Inl NilMapAssignment
   \<and> activeSessions (snd (InitializeSession ''a'' 100 zero_store)) = 1
   \<and> entries (sessions (snd (InitializeSession ''a'' 100 zero_store))) = []
   \<and> mutex (snd (InitializeSession ''a'' 100 zero_store)) = False
   \<and> activeSessions
         (snd (InitializeSession ''b'' 200 (snd (InitializeSession ''a'' 100 zero_store)))) = 2
   \<and> entries (sessions
         (snd (InitializeSession ''b'' 200 (snd (InitializeSession ''a'' 100 zero_store))))) = []"
proof -
  have e: "reachable zero_store zero_store"
    by (rule reachable.start) (simp_all add: zero_store_def entries_def)
  have a: "allowed (Call_InitializeSession ''a'' 100) zero_store"
    by (simp add: zero_store_def lookup_def)
  have p: "perform (Call_InitializeSession ''a'' 100) zero_store
             = (Some NilMapAssignment, snd (InitializeSession ''a'' 100 zero_store))"
    by (simp add: InitializeSession_def zero_store_def Let_def)
  have r: "reachable zero_store (snd (InitializeSession ''a'' 100 zero_store))"
    by (rule reachable.call [OF e a p])
  have v: "fst (InitializeSession ''a'' 100 zero_store) = Inl NilMapAssignment
     \<and> activeSessions (snd (InitializeSession ''a'' 100 zero_store)) = 1
     \<and> entries (sessions (snd (InitializeSession ''a'' 100 zero_store))) = []
     \<and> mutex (snd (InitializeSession ''a'' 100 zero_store)) = False
     \<and> activeSessions
         (snd (InitializeSession ''b'' 200 (snd (InitializeSession ''a'' 100 zero_store)))) = 2
     \<and> entries (sessions
         (snd (InitializeSession ''b'' 200 (snd (InitializeSession ''a'' 100 zero_store))))) = []"
    by (simp add: InitializeSession_def zero_store_def Let_def deferred_Unlock_def entries_def)
  from r a v show ?thesis by blast
qed

section \<open>Identifiers in cookies\<close>

lemma hex_digit: "n < 16 \<Longrightarrow> ishex (upperhex ! n) \<and> unhex (upperhex ! n) = n"
proof -
  assume "n < 16"
  then have "n \<in> {0, 1, 2, 3, 4, 5, 6, 7, 8, 9, 10, 11, 12, 13, 14, 15}"
    by (simp; arith)
  then show ?thesis
    by (auto simp: upperhex_def ishex_def unhex_def less_eq_char_def)
qed

lemma of_char_below_256: "(of_char c :: nat) < 256"
  by (cases c) simp

lemma unescaped_is_plain: "\<not> shouldEscape c \<Longrightarrow> c \<noteq> CHR ''%'' \<and> c \<noteq> CHR ''+''"
  by (auto simp: shouldEscape_def less_eq_char_def split: if_splits)

text \<open>Unescaping undoes escaping, on every byte string.\<close>

lemma unescape_escape: "unescape (escape s) = Inr s"
proof (induction s)
  case Nil
  show ?case by simp
next
  case (Cons c s)
  have high: "(of_char c :: nat) div 16 < 16" using of_char_below_256 [of c] by arith
  have low: "(of_char c :: nat) mod 16 < 16" by simp
  have whole: "char_of ((of_char c :: nat) div 16 * 16 + of_char c mod 16) = c" by simp
  show ?case
    using Cons.IH hex_digit [OF high] hex_digit [OF low] unescaped_is_plain [of c] whole
    by simp
qed

text \<open>
  Claim C7: for every identifier \<open>generateUniqueSessionID\<close> produces, query-escaping and
  then query-unescaping, as \<open>StartSession\<close> does when it writes and later reads the
  cookie, gives the identifier back.  This holds for the encoding of any 32 bytes and for
  the empty identifier returned when the random source fails.
\<close>

theorem C7_identifier_survives_escaping:
  "QueryUnescape (QueryEscape (generateUniqueSessionID rand))
     = Inr (generateUniqueSessionID rand)"
  by (simp add: QueryUnescape_def QueryEscape_def unescape_escape)

section \<open>Starting and ending a session\<close>

text \<open>
  Claim C8: when the request carries the cookie and its value unescapes to an identifier
  that is not registered, \<open>StartSession\<close> returns \<open>SessionNotExist\<close>, writes no cookie and
  creates no session: the state is what it was.  Both mutexes are free when the call is
  made.
\<close>

theorem C8_StartSession_with_unknown_identifier:
  assumes "\<not> managerMutex s" and "\<not> mutex (memory s)"
    and "request (cookieName manager) = Some v" and "v \<noteq> []"
    and "QueryUnescape v = Inr sessionId"
    and "lookup (sessions (memory s)) sessionId = None"
  shows "StartSession manager rand now request s = (Inr (Inl SessionNotExist), [], s)"
  using assms by (simp add: StartSession_def RetrieveSession_def Let_def)

theorem C8_witness:
  "QueryUnescape ''stale%3D'' = Inr ''stale=''
   \<and> lookup (sessions (memory state1)) ''stale='' = None
   \<and> StartSession manager0 [] 300 (carrying ''sid'' ''stale%3D'') state1
       = (Inr (Inl SessionNotExist), [], state1)"
proof -
  have u: "QueryUnescape ''stale%3D'' = Inr ''stale=''"
    by code_simp
  have n: "lookup (sessions (memory state1)) ''stale='' = None"
    by (simp add: state1_def lookup_def sessionId0_def)
  have "StartSession manager0 [] 300 (carrying ''sid'' ''stale%3D'') state1
          = (Inr (Inl SessionNotExist), [], state1)"
    by (rule C8_StartSession_with_unknown_identifier [OF _ _ _ _ u n])
       (simp_all add: state1_def manager0_def carrying_def)
  with u n show ?thesis by simp
qed

text \<open>A request without the cookie, or with an empty one, ends nothing.\<close>

lemma EndSession_without_cookie:
  "request (cookieName manager) = None \<or> request (cookieName manager) = Some []
     \<Longrightarrow> EndSession manager now request s = (Inr (), [], s)"
  by (auto simp: EndSession_def)

lemma EncodeToString_zero3:
  "EncodeToString (0 # 0 # 0 # src)
     = CHR ''A'' # CHR ''A'' # CHR ''A'' # CHR ''A'' # EncodeToString src"
  by (simp add: encodeURL_def)

lemma EncodeToString_zero2: "EncodeToString [0, 0] = ''AAA=''"
  by (simp add: encodeURL_def)

lemma generateUniqueSessionID_zero: "generateUniqueSessionID (replicate 32 0) = sessionId0"
proof -
  have "EncodeToString (replicate 32 0) = sessionId0"
    unfolding sessionId0_def
    by (simp add: eval_nat_numeral EncodeToString_zero3 EncodeToString_zero2
          del: EncodeToString.simps)
  then show ?thesis by (simp add: generateUniqueSessionID_def)
qed

lemma QueryEscape_sessionId0:
  "QueryEscape sessionId0 = ''AAAAAAAAAAAAAAAAAAAAAAAAAAAAAAAAAAAAAAAAAAA%3D''"
  unfolding sessionId0_def by code_simp

text \<open>
  Claim C3: \<open>EndSession\<close> on a request without the cookie, or with an empty one, leaves the
  store alone and writes no cookie; on a request with the cookie that \<open>StartSession\<close> set
  for an identifier it removes the session registered under that identifier and writes a
  cookie with \<open>MaxAge = -1\<close> and \<open>Expires\<close> set to now.  The first half holds
  (\<open>EndSession_without_cookie\<close>).  For the second, \<open>StartSession\<close> issues the identifier
  made of 32 zero bytes and sets the cookie to its escaped form; \<open>EndSession\<close> with that
  cookie then blocks inside \<open>DestroySession\<close>, writes no cookie and leaves the session
  registered.  The value it hands to \<open>DestroySession\<close> is the escaped one, which is not a
  key of the store.
\<close>

theorem C3_EndSession_blocks_and_session_stays:
  "StartSession manager0 (replicate 32 0) 100 no_cookie state0
     = (Inr (Inr 0),
        [\<lparr>Name = ''sid'', Value = ''AAAAAAAAAAAAAAAAAAAAAAAAAAAAAAAAAAAAAAAAAAA%3D'',
          Path = ''/'', HttpOnly = True, Expires = None, MaxAge = 60\<rparr>],
        state1)
   \<and> EndSession manager0 200 (carrying ''sid'' ''AAAAAAAAAAAAAAAAAAAAAAAAAAAAAAAAAAAAAAAAAAA%3D'')
         state1
       = (Inl Deadlock, [],
          state1\<lparr>managerMutex := True, memory := (memory state1)\<lparr>mutex := True\<rparr>\<rparr>)
   \<and> lookup (sessions (memory state1)) sessionId0 = Some 0
   \<and> lookup (sessions (memory state1)) ''AAAAAAAAAAAAAAAAAAAAAAAAAAAAAAAAAAAAAAAAAAA%3D'' = None"
proof -
  have a: "StartSession manager0 (replicate 32 0) 100 no_cookie state0
     = (Inr (Inr 0),
        [\<lparr>Name = ''sid'', Value = ''AAAAAAAAAAAAAAAAAAAAAAAAAAAAAAAAAAAAAAAAAAA%3D'',
          Path = ''/'', HttpOnly = True, Expires = None, MaxAge = 60\<rparr>],
        state1)"
    by (simp add: StartSession_def generateUniqueSessionID_zero QueryEscape_sessionId0
          InitializeSession_def state0_def manager0_def empty_store_def no_cookie_def Let_def
          state1_def)
  have b: "EndSession manager0 200 (carrying ''sid'' ''AAAAAAAAAAAAAAAAAAAAAAAAAAAAAAAAAAAAAAAAAAA%3D'')
         state1
       = (Inl Deadlock, [],
          state1\<lparr>managerMutex := True, memory := (memory state1)\<lparr>mutex := True\<rparr>\<rparr>)"
    by (simp add: EndSession_def manager0_def carrying_def DestroySession_blocks
          manager_Unlock_def state1_def)
  have c: "lookup (sessions (memory state1)) sessionId0 = Some 0"
    by (simp add: state1_def lookup_def)
  have d: "lookup (sessions (memory state1)) ''AAAAAAAAAAAAAAAAAAAAAAAAAAAAAAAAAAAAAAAAAAA%3D'' = None"
    by (simp add: state1_def lookup_def sessionId0_def)
  from a b c d show ?thesis by blast
qed

section \<open>Choosing the storage media\<close>

lemma ToLower_MEMORY: "ToLower id ''MEMORY'' = ''memory''"
  by code_simp

text \<open>
  Claim C9: for every storage media type that is not one of \<open>memory\<close>, \<open>file\<close>,
  \<open>postgres\<close>, \<open>NewSessionManager\<close> returns no manager and an error that lists the
  supported types.  The code lowers the type first, so \<open>MEMORY\<close>, which is not one of
  the three strings, is accepted.
\<close>

theorem C9_counterexample:
  "''MEMORY'' \<notin> set supportedStorageMediaTypes
   \<and> NewSessionManager id registers ''MEMORY'' ''sid'' 60
       = Inr (Some \<lparr>cookieName = ''sid'', storageMedia = MemoryStorage_media, maxLifetime = 60\<rparr>,
              None)"
  by (simp add: supportedStorageMediaTypes_def NewSessionManager_def ToLower_MEMORY
        supportedStorageMedia_def registers_def)

text \<open>
  Claim C9, amended: for every storage media type whose lower-case form is not one of
  \<open>memory\<close>, \<open>file\<close>, \<open>postgres\<close>, \<open>NewSessionManager\<close> returns no manager and the
  error whose message names the lowered type and lists the supported ones; the
  registration is not consulted.
\<close>

theorem C9_unsupported_after_lowering:
  assumes "ToLower mapLower t \<notin> set supportedStorageMediaTypes"
  shows "NewSessionManager mapLower registration t name lifetime =
           Inr (None,
                Some (Errorf (''wsm: unsupported storage media type '' @ ToLower mapLower t
                  @ '', the supported storage media types are [memory file postgres]'')))"
  using assms
  by (simp add: supportedStorageMediaTypes_def NewSessionManager_def supportedStorageMedia_def
        format_slice_def)

lemma ToLower_Redis: "ToLower id ''Redis'' = ''redis''"
  by code_simp

theorem C9_witness:
  "ToLower id ''Redis'' \<notin> set supportedStorageMediaTypes
   \<and> NewSessionManager id registers ''Redis'' ''sid'' 60 =
       Inr (None,
            Some (Errorf ''wsm: unsupported storage media type redis, the supported storage media types are [memory file postgres]''))"
proof -
  have n: "ToLower id ''Redis'' \<notin> set supportedStorageMediaTypes"
    by (simp add: ToLower_Redis supportedStorageMediaTypes_def)
  show ?thesis
    using n C9_unsupported_after_lowering [OF n, of registers "''sid''" 60]
    by (simp add: ToLower_Redis)
qed

section \<open>What touching a session leaves alone\<close>

text \<open>
  The assignment \<open>memory.sessions[sessionId].lastAccessTime = time.Now()\<close>, taken alone
  with the return that follows it, sets the time of the registered session and leaves its
  identifier, its values, every other session, the map and the counter as they were.
\<close>

lemma touch_frame:
  assumes "lookup (sessions w) sessionId = Some session"
  shows "fst (touch sessionId now w) = Inr None
         \<and> lastAccessTime (heap (snd (touch sessionId now w)) session) = now
         \<and> sessions (snd (touch sessionId now w)) = sessions w
         \<and> activeSessions (snd (touch sessionId now w)) = activeSessions w
         \<and> id_field (heap (snd (touch sessionId now w)) session) = id_field (heap w session)
         \<and> value_field (heap (snd (touch sessionId now w)) session)
             = value_field (heap w session)
         \<and> (\<forall>other. other \<noteq> session
              \<longrightarrow> heap (snd (touch sessionId now w)) other = heap w other)"
  using assms by (simp add: touch_def)

text \<open>
  Claim C10: for a registered identifier, \<open>UpdateSessionLastAccess\<close> changes only the
  \<open>lastAccessTime\<close> of the session registered under it; that session's identifier and
  value map, every other session and the counter are the same before and after the call.
  The call never reaches the assignment.  On the store with the session \<open>a\<close>, last
  accessed at second 100, the call at second 500 blocks on its second \<open>Lock\<close>: the time
  of the session stays 100, and the one thing that has changed is the store's mutex,
  which is held from then on, so that a later \<open>RetrieveSession\<close> blocks as well.
\<close>

theorem C10_UpdateSessionLastAccess_changes_mutex_not_time:
  "lookup (sessions one_session) ''a'' = Some 0
   \<and> UpdateSessionLastAccess ''a'' 500 one_session
       = (Inl Deadlock, one_session\<lparr>mutex := True\<rparr>)
   \<and> lastAccessTime (heap (snd (UpdateSessionLastAccess ''a'' 500 one_session)) 0) = 100
   \<and> mutex one_session = False
   \<and> mutex (snd (UpdateSessionLastAccess ''a'' 500 one_session)) = True
   \<and> fst (RetrieveSession ''a'' (snd (UpdateSessionLastAccess ''a'' 500 one_session)))
       = Inl Deadlock"
  by (simp add: UpdateSessionLastAccess_blocks RetrieveSession_def one_session_def lookup_def)

end
